theory Spec2Isabelle
  imports Main
begin

section \<open>The build script \<open>build.py\<close>\<close>

text \<open>
  The script checks that eight command-line tools can be found, makes sure the directory
  \<open>dist\<close> exists and hands the build to one external command. Everything it does goes
  through the operating system, so the embedding makes the host explicit:
  \<^item> a host either has a shell, a function from a command line to the exit status and
    the two captured streams of the finished child process, or has none, and then
    \<open>subprocess\<close> raises \<open>OSError\<close> for every command (\<open>shell=True\<close> starts them all
    through the same shell);
  \<^item> the file system, as far as the script looks at it, maps a name of the working
    directory to a regular file, a directory or a dangling symbolic link, and says whether
    the working directory takes a new entry;
  \<^item> what the script itself does (lines printed, child processes asked for, directories
    made) is recorded in a trace, in program order.
  Python text is represented by its UTF-8 bytes, so \<open>bytes.decode()\<close> is the identity on
  well-formed input and raises \<open>UnicodeDecodeError\<close> otherwise. Standard output is taken
  to accept every line written to it, and command lines to be free of the NUL character,
  as those of the script are.
\<close>

subsection \<open>Exceptions, results and the world\<close>

datatype exn = OSError | FileExistsError | PermissionError | UnicodeDecodeError

datatype 'a result = Returned 'a | Raised exn

text \<open>
  What a name resolves to. A symbolic link to a file or a directory counts as its
  target; a link whose target is missing holds the name without leading anywhere.
\<close>

datatype node = RegularFile | Directory | DanglingSymlink

datatype event = Print string | Spawn string | Makedirs string

text \<open>
  \<open>mkdir_refused\<close> is \<open>None\<close> when the working directory takes a new entry, and
  otherwise the exception \<open>mkdir\<close> raises for a free name (\<open>PermissionError\<close> in a
  directory that is not writable, \<open>OSError\<close> on a read-only or full file system).
\<close>

record world =
  fs :: "string \<rightharpoonup> node"
  mkdir_refused :: "exn option"
  trace :: "event list"

type_synonym 'a action = "world \<Rightarrow> 'a result \<times> world"

record proc =
  returncode :: int
  stdout :: string
  stderr :: string

type_synonym shell = "string \<Rightarrow> proc"

type_synonym host = "shell option"

definition return :: "'a \<Rightarrow> 'a action" where
  "return a w = (Returned a, w)"

definition raise :: "exn \<Rightarrow> 'a action" where
  "raise e w = (Raised e, w)"

text \<open>Sequencing of two statements: an exception of the first skips the second.\<close>

definition seq :: "'a action \<Rightarrow> ('a \<Rightarrow> 'b action) \<Rightarrow> 'b action" where
  "seq m f w = (case m w of (Returned a, w') \<Rightarrow> f a w' | (Raised e, w') \<Rightarrow> (Raised e, w'))"

definition log :: "event \<Rightarrow> world \<Rightarrow> world" where
  "log e w = w\<lparr>trace := trace w @ [e]\<rparr>"

subsection \<open>Library calls\<close>

text \<open>\<open>print(s)\<close>: one line on the program's standard output.\<close>

definition py_print :: "string \<Rightarrow> unit action" where
  "py_print s w = (Returned (), log (Print s) w)"

text \<open>
  Well-formed UTF-8, byte by byte: \<open>need\<close> continuation bytes are still expected, and the
  next one must lie between \<open>lo\<close> and \<open>hi\<close> (which excludes overlong forms, surrogates
  and code points above U+10FFFF).
\<close>

fun utf8_scan :: "nat \<Rightarrow> nat \<Rightarrow> nat \<Rightarrow> string \<Rightarrow> bool" where
  "utf8_scan need lo hi [] = (need = 0)"
| "utf8_scan need lo hi (c # cs) =
     (let b = (of_char c :: nat) in
      if need = 0 then
        if b < 0x80 then utf8_scan 0 0x80 0xBF cs
        else if 0xC2 \<le> b \<and> b \<le> 0xDF then utf8_scan 1 0x80 0xBF cs
        else if b = 0xE0 then utf8_scan 2 0xA0 0xBF cs
        else if b = 0xED then utf8_scan 2 0x80 0x9F cs
        else if 0xE1 \<le> b \<and> b \<le> 0xEF then utf8_scan 2 0x80 0xBF cs
        else if b = 0xF0 then utf8_scan 3 0x90 0xBF cs
        else if 0xF1 \<le> b \<and> b \<le> 0xF3 then utf8_scan 3 0x80 0xBF cs
        else if b = 0xF4 then utf8_scan 3 0x80 0x8F cs
        else False
      else lo \<le> b \<and> b \<le> hi \<and> utf8_scan (need - 1) 0x80 0xBF cs)"

definition utf8_ok :: "string \<Rightarrow> bool" where
  "utf8_ok bs = utf8_scan 0 0x80 0xBF bs"

text \<open>\<open>bs.decode()\<close>, with the default codec and the default strict error handling.\<close>

definition decode :: "string \<Rightarrow> string action" where
  "decode bs = (if utf8_ok bs then return bs else raise UnicodeDecodeError)"

text \<open>
  \<open>subprocess.Popen(command, shell=True, stdout=PIPE, stderr=PIPE)\<close> followed by
  \<open>communicate()\<close>: the child's exit status and its two captured streams.
\<close>

definition popen_communicate :: "host \<Rightarrow> string \<Rightarrow> proc action" where
  "popen_communicate h command w =
     (case h of
        None \<Rightarrow> (Raised OSError, log (Spawn command) w)
      | Some sh \<Rightarrow> (Returned (sh command), log (Spawn command) w))"

text \<open>\<open>subprocess.call(command, shell=True, stdout=PIPE, stderr=PIPE)\<close>: the exit status.\<close>

definition subprocess_call :: "host \<Rightarrow> string \<Rightarrow> int action" where
  "subprocess_call h command w =
     (case h of
        None \<Rightarrow> (Raised OSError, log (Spawn command) w)
      | Some sh \<Rightarrow> (Returned (returncode (sh command)), log (Spawn command) w))"

text \<open>
  \<open>os.path.exists(name)\<close> follows symbolic links: it is false for a free name and for a
  dangling link.
\<close>

definition os_path_exists :: "string \<Rightarrow> bool action" where
  "os_path_exists name w =
     (case fs w name of
        None \<Rightarrow> (Returned False, w)
      | Some DanglingSymlink \<Rightarrow> (Returned False, w)
      | Some _ \<Rightarrow> (Returned True, w))"

text \<open>
  \<open>os.makedirs(name)\<close> for a name without a directory part, as \<open>dist\<close> is: one
  \<open>mkdir\<close>. It fails with \<open>FileExistsError\<close> when the name is taken, whatever holds
  it (a dangling link too), and with the directory's refusal when the name is free but
  no entry can be made.
\<close>

definition os_makedirs :: "string \<Rightarrow> unit action" where
  "os_makedirs name w =
     (case fs w name of
        Some _ \<Rightarrow> (Raised FileExistsError, log (Makedirs name) w)
      | None \<Rightarrow>
          (case mkdir_refused w of
             Some e \<Rightarrow> (Raised e, log (Makedirs name) w)
           | None \<Rightarrow>
               (Returned (), log (Makedirs name) (w\<lparr>fs := (fs w)(name \<mapsto> Directory)\<rparr>))))"

text \<open>\<open>sep.join(xs)\<close>.\<close>

fun join :: "string \<Rightarrow> string list \<Rightarrow> string" where
  "join sep [] = []"
| "join sep [x] = x"
| "join sep (x # y # ys) = x @ sep @ join sep (y # ys)"

subsection \<open>The script\<close>

definition run_command :: "host \<Rightarrow> string \<Rightarrow> unit action" where
  "run_command h command =
     seq (popen_communicate h command) (\<lambda>process.
       if returncode process \<noteq> 0 then
         seq (py_print (''Error running command: '' @ command)) (\<lambda>_.
         seq (decode (stderr process)) py_print)
       else
         seq (decode (stdout process)) py_print)"

definition dependencies :: "string list" where
  "dependencies =
     [''figlet'', ''argc'', ''wget'', ''curl'', ''telnet'', ''ssh'', ''mosh'', ''bash'']"

definition which :: "string \<Rightarrow> string" where
  "which dep = ''which '' @ dep"

text \<open>The loop of \<open>checkDeps\<close>, with \<open>missing_deps\<close> as the accumulator.\<close>

fun probe_all :: "host \<Rightarrow> string list \<Rightarrow> string list \<Rightarrow> string list action" where
  "probe_all h [] missing_deps = return missing_deps"
| "probe_all h (dep # deps) missing_deps =
     seq (subprocess_call h (which dep)) (\<lambda>status.
       if status \<noteq> 0 then probe_all h deps (missing_deps @ [dep])
       else probe_all h deps missing_deps)"

text \<open>The body of \<open>checkDeps\<close>, for any value of its local list \<open>dependencies\<close>.\<close>

definition checkDeps_on :: "host \<Rightarrow> string list \<Rightarrow> bool action" where
  "checkDeps_on h deps =
     seq (probe_all h deps []) (\<lambda>missing_deps.
       if missing_deps \<noteq> [] then
         seq (py_print (''Missing dependencies:'' @ '' '' @ join '', '' missing_deps)) (\<lambda>_.
         return False)
       else return True)"

definition checkDeps :: "host \<Rightarrow> bool action" where
  "checkDeps h = checkDeps_on h dependencies"

definition echo_command :: string where
  "echo_command = ''echo '' @ [CHR 0x27] @ ''Compiling source code...'' @ [CHR 0x27]"

definition build_command :: string where
  "build_command = ''argc --argc-build Main.sh dist/vmodem99-a''"

text \<open>Lines 41 and 42 of \<open>main\<close>: the directory is made when the name does not exist.\<close>

definition ensure_dist :: "unit action" where
  "ensure_dist =
     seq (os_path_exists ''dist'') (\<lambda>present.
       if \<not> present then os_makedirs ''dist'' else return ())"

definition main :: "host \<Rightarrow> unit action" where
  "main h =
     seq (checkDeps h) (\<lambda>ok.
       if \<not> ok then
         seq (py_print ''Please install the missing dependencies and try again.'') (\<lambda>_.
         return ())
       else
         seq (py_print ''All dependencies are satisfied.'') (\<lambda>_.
         seq (py_print ''Building the project...'') (\<lambda>_.
         seq (run_command h echo_command) (\<lambda>_.
         seq ensure_dist (\<lambda>_.
         seq (run_command h build_command) (\<lambda>_.
         py_print ''Build completed successfully.''))))))"

text \<open>
  The script run as a program: the interpreter exits with status 0 when \<open>main\<close> returns
  and with status 1 when an exception leaves it.
\<close>

definition script :: "host \<Rightarrow> world \<Rightarrow> int \<times> world" where
  "script h w = (case main h w of (Returned _, w') \<Rightarrow> (0, w') | (Raised _, w') \<Rightarrow> (1, w'))"

subsection \<open>Vocabulary of the properties\<close>

text \<open>
  A name is unresolvable under a shell when its probe \<open>which name\<close> exits with a status
  other than 0, the test \<open>checkDeps\<close> makes.
\<close>

definition unresolvable :: "shell \<Rightarrow> string \<Rightarrow> bool" where
  "unresolvable sh dep = (returncode (sh (which dep)) \<noteq> 0)"

text \<open>The captured stream that \<open>run_command\<close> decodes: one of the two, by exit status.\<close>

definition surfaced :: "proc \<Rightarrow> string" where
  "surfaced p = (if returncode p \<noteq> 0 then stderr p else stdout p)"

text \<open>The lines \<open>run_command\<close> prints for a finished process whose stream decodes.\<close>

definition printed_for :: "string \<Rightarrow> proc \<Rightarrow> event list" where
  "printed_for command p =
     (if returncode p \<noteq> 0
      then [Print (''Error running command: '' @ command), Print (stderr p)]
      else [Print (stdout p)])"

text \<open>
  The states in which the directory step goes through: the name \<open>dist\<close> is held by a
  directory or a regular file, or it is free and the working directory takes the entry.
\<close>

definition dist_ready :: "world \<Rightarrow> bool" where
  "dist_ready w =
     (case fs w ''dist'' of
        None \<Rightarrow> mkdir_refused w = None
      | Some DanglingSymlink \<Rightarrow> False
      | Some _ \<Rightarrow> True)"

text \<open>What \<open>ensure_dist\<close> adds to the trace when it goes through.\<close>

definition made :: "world \<Rightarrow> event list" where
  "made w = (if fs w ''dist'' = None then [Makedirs ''dist''] else [])"

text \<open>What was added to the trace between two worlds.\<close>

definition new_events :: "world \<Rightarrow> world \<Rightarrow> event list" where
  "new_events w w' = drop (length (trace w)) (trace w')"

fun is_spawn :: "event \<Rightarrow> bool" where
  "is_spawn (Spawn _) = True"
| "is_spawn _ = False"

text \<open>The directory-ensure step, twice in succession.\<close>

definition ensure_twice :: "unit action" where
  "ensure_twice = seq ensure_dist (\<lambda>_. ensure_dist)"

text \<open>The same shell, except for what the build command yields.\<close>

definition shell_rebuilt :: "shell \<Rightarrow> proc \<Rightarrow> shell" where
  "shell_rebuilt sh p = sh(build_command := p)"

subsection \<open>Sample shells and worlds\<close>

definition quiet :: proc where
  "quiet = \<lparr>returncode = 0, stdout = [], stderr = []\<rparr>"

text \<open>A failed build with a message in plain text.\<close>

definition failed :: proc where
  "failed = \<lparr>returncode = 2, stdout = [], stderr = ''error: Main.sh not found''\<rparr>"

text \<open>
  A build tool that writes a Latin-1 message to standard error (byte \<open>0xFC\<close>, an
  umlaut, is not UTF-8) whatever its exit status.
\<close>

definition noisy :: "int \<Rightarrow> proc" where
  "noisy status =
     \<lparr>returncode = status, stdout = ''done'',
      stderr = ''Main.sh: ung'' @ [CHR 0xFC] @ ''ltige Zeile''\<rparr>"

text \<open>A successful command whose output is binary.\<close>

definition binary :: proc where
  "binary = \<lparr>returncode = 0, stdout = [CHR 0x7F, CHR 0x45, CHR 0x4C, CHR 0x46, CHR 0xFF], stderr = []\<rparr>"

text \<open>Every command exits with status 0 and prints nothing.\<close>

definition shell_complete :: shell where
  "shell_complete command = quiet"

text \<open>As before, but \<open>mosh\<close> is not installed.\<close>

definition shell_without_mosh :: shell where
  "shell_without_mosh command =
     (if command = ''which mosh'' then \<lparr>returncode = 1, stdout = [], stderr = []\<rparr>
      else quiet)"

text \<open>Every tool is found, and the build command fails.\<close>

definition shell_failing_build :: shell where
  "shell_failing_build = shell_rebuilt shell_complete failed"

definition shell_noisy_build :: "int \<Rightarrow> shell" where
  "shell_noisy_build status = shell_rebuilt shell_complete (noisy status)"



text \<open>Copying an executable to standard output succeeds.\<close>

definition shell_with_cat :: shell where
  "shell_with_cat command = (if command = ''cat /bin/sh'' then binary else quiet)"

text \<open>An empty, writable working directory.\<close>

definition empty_world :: world where
  "empty_world = \<lparr>fs = Map.empty, mkdir_refused = None, trace = []\<rparr>"

text \<open>The name \<open>dist\<close> is taken by a regular file.\<close>

definition world_with_file :: world where
  "world_with_file = \<lparr>fs = [''dist'' \<mapsto> RegularFile], mkdir_refused = None, trace = []\<rparr>"

text \<open>The name \<open>dist\<close> is a symbolic link to a target that does not exist.\<close>

definition world_with_dangling_link :: world where
  "world_with_dangling_link =
     \<lparr>fs = [''dist'' \<mapsto> DanglingSymlink], mkdir_refused = None, trace = []\<rparr>"

text \<open>An empty working directory that is not writable.\<close>

definition world_not_writable :: world where
  "world_not_writable = \<lparr>fs = Map.empty, mkdir_refused = Some PermissionError, trace = []\<rparr>"

section \<open>Properties\<close>

subsection \<open>Sequencing and traces\<close>

lemma new_events_append [simp]: "new_events w (w\<lparr>trace := trace w @ es\<rparr>) = es"
  by (simp add: new_events_def)

lemma filter_spawns [simp]:
  "filter is_spawn (map (\<lambda>d. Spawn (f d)) xs) = map (\<lambda>d. Spawn (f d)) xs"
  "filter (\<lambda>e. \<not> is_spawn e) (map (\<lambda>d. Spawn (f d)) xs) = []"
  by (induction xs) simp_all

lemma made_trace [simp]: "made (w\<lparr>trace := t\<rparr>) = made w"
  by (simp add: made_def)

text \<open>Plain text is well-formed UTF-8.\<close>

lemma utf8_ok_samples:
  "utf8_ok (stdout quiet)"
  "utf8_ok (stderr failed)"
  by code_simp+

lemma returncode_samples [simp]:
  "returncode quiet = 0" "returncode failed = 2" "returncode (noisy status) = status"
  "returncode binary = 0"
  by (simp_all add: quiet_def failed_def noisy_def binary_def)

lemma utf8_ok_noisy:
  "utf8_ok (stdout (noisy status))"
  "\<not> utf8_ok (stderr (noisy status))"
  by (simp_all add: noisy_def utf8_ok_def)

lemma utf8_ok_rejects:
  "\<not> utf8_ok (stdout binary)"
  by code_simp

subsection \<open>The command runner\<close>

lemma run_command_started:
  "run_command (Some sh) command w =
     ((if utf8_ok (surfaced (sh command)) then Returned () else Raised UnicodeDecodeError),
      w\<lparr>trace := trace w @ Spawn command #
         (if returncode (sh command) \<noteq> 0
          then [Print (''Error running command: '' @ command)] else []) @
         (if utf8_ok (surfaced (sh command)) then [Print (surfaced (sh command))] else [])\<rparr>)"
  by (cases "returncode (sh command) = 0")
    (simp_all add: run_command_def seq_def popen_communicate_def py_print_def decode_def
      return_def raise_def log_def surfaced_def)

lemma run_command_decoded:
  assumes "utf8_ok (surfaced (sh command))"
  shows "run_command (Some sh) command w =
           (Returned (), w\<lparr>trace := trace w @ Spawn command # printed_for command (sh command)\<rparr>)"
  using assms
  by (cases "returncode (sh command) = 0")
    (simp_all add: run_command_started printed_for_def surfaced_def)


subsection \<open>The directory\<close>

lemma ensure_dist_absent:
  "fs w ''dist'' = None \<Longrightarrow> mkdir_refused w = None \<Longrightarrow>
   ensure_dist w =
     (Returned (), w\<lparr>fs := (fs w)(''dist'' \<mapsto> Directory), trace := trace w @ [Makedirs ''dist'']\<rparr>)"
  by (simp add: ensure_dist_def seq_def os_path_exists_def os_makedirs_def log_def)

lemma ensure_dist_present:
  "fs w ''dist'' = Some Directory \<or> fs w ''dist'' = Some RegularFile \<Longrightarrow>
   ensure_dist w = (Returned (), w)"
  by (auto simp: ensure_dist_def seq_def os_path_exists_def return_def)

lemma ensure_dist_dangling:
  "fs w ''dist'' = Some DanglingSymlink \<Longrightarrow>
   ensure_dist w = (Raised FileExistsError, w\<lparr>trace := trace w @ [Makedirs ''dist'']\<rparr>)"
  by (simp add: ensure_dist_def seq_def os_path_exists_def os_makedirs_def log_def)

lemma ensure_dist_refused:
  "fs w ''dist'' = None \<Longrightarrow> mkdir_refused w = Some e \<Longrightarrow>
   ensure_dist w = (Raised e, w\<lparr>trace := trace w @ [Makedirs ''dist'']\<rparr>)"
  by (simp add: ensure_dist_def seq_def os_path_exists_def os_makedirs_def log_def)

lemma dist_ready_cases:
  "dist_ready w =
     (fs w ''dist'' = Some Directory \<or> fs w ''dist'' = Some RegularFile \<or>
      fs w ''dist'' = None \<and> mkdir_refused w = None)"
  by (auto simp: dist_ready_def split: option.splits node.splits)

lemma dist_ready_trace [simp]: "dist_ready (w\<lparr>trace := t\<rparr>) = dist_ready w"
  by (simp add: dist_ready_def split: option.splits node.splits)

lemma ensure_dist_ready:
  assumes "dist_ready w"
  shows "ensure_dist w =
     (Returned (),
      w\<lparr>fs := (if fs w ''dist'' = None then (fs w)(''dist'' \<mapsto> Directory) else fs w),
        trace := trace w @ made w\<rparr>)"
proof (cases "fs w ''dist'' = None")
  case True
  with assms have "mkdir_refused w = None"
    by (simp add: dist_ready_cases)
  with True show ?thesis
    by (simp add: ensure_dist_absent made_def)
next
  case False
  with assms have "fs w ''dist'' = Some Directory \<or> fs w ''dist'' = Some RegularFile"
    by (simp add: dist_ready_cases)
  then have "ensure_dist w = (Returned (), w)"
    by (rule ensure_dist_present)
  moreover from False have "made w = []"
    and "(if fs w ''dist'' = None then (fs w)(''dist'' \<mapsto> Directory) else fs w) = fs w"
    by (auto simp: made_def)
  ultimately show ?thesis
    by simp
qed

text \<open>The step succeeds in exactly the ready states.\<close>

lemma ensure_dist_returns: "(fst (ensure_dist w) = Returned ()) = dist_ready w"
proof (cases "dist_ready w")
  case True
  then show ?thesis
    by (simp add: ensure_dist_ready)
next
  case False
  then have "fs w ''dist'' = Some DanglingSymlink \<or>
      (fs w ''dist'' = None \<and> (\<exists>e. mkdir_refused w = Some e))"
    by (auto simp: dist_ready_def split: option.splits node.splits)
  with False show ?thesis
    by (auto simp: ensure_dist_dangling ensure_dist_refused)
qed

subsection \<open>The probing loop\<close>

lemma probe_all_with_shell:
  "probe_all (Some sh) deps acc w =
     (Returned (acc @ filter (unresolvable sh) deps),
      w\<lparr>trace := trace w @ map (\<lambda>d. Spawn (which d)) deps\<rparr>)"
proof (induction deps arbitrary: acc w)
  case Nil
  show ?case by (simp add: return_def)
next
  case (Cons dep deps)
  show ?case
    by (simp add: Cons.IH seq_def subprocess_call_def log_def unresolvable_def)
qed

lemma probe_all_without_shell:
  "probe_all None (dep # deps) acc w =
     (Raised OSError, w\<lparr>trace := trace w @ [Spawn (which dep)]\<rparr>)"
  by (simp add: seq_def subprocess_call_def log_def)

lemma checkDeps_on_with_shell:
  "checkDeps_on (Some sh) deps w =
     (if filter (unresolvable sh) deps = []
      then (Returned True, w\<lparr>trace := trace w @ map (\<lambda>d. Spawn (which d)) deps\<rparr>)
      else (Returned False,
            w\<lparr>trace := trace w @ map (\<lambda>d. Spawn (which d)) deps @
               [Print (''Missing dependencies: '' @ join '', '' (filter (unresolvable sh) deps))]\<rparr>))"
  by (simp add: checkDeps_on_def probe_all_with_shell seq_def py_print_def return_def log_def)

subsection \<open>The orchestration\<close>

lemma main_missing:
  assumes "filter (unresolvable sh) dependencies \<noteq> []"
  shows "main (Some sh) w =
     (Returned (),
      w\<lparr>trace := trace w @ map (\<lambda>d. Spawn (which d)) dependencies @
         [Print (''Missing dependencies: '' @ join '', '' (filter (unresolvable sh) dependencies)),
          Print ''Please install the missing dependencies and try again.'']\<rparr>)"
  using assms
  by (simp add: main_def checkDeps_def seq_def checkDeps_on_with_shell py_print_def return_def
      log_def)

text \<open>On a host without a shell the first probe ends the run.\<close>

lemma main_without_shell:
  "main None w = (Raised OSError, w\<lparr>trace := trace w @ [Spawn ''which figlet'']\<rparr>)"
  by (simp add: main_def checkDeps_def checkDeps_on_def dependencies_def seq_def
      subprocess_call_def log_def which_def)

text \<open>
  With every tool found, \<open>main\<close> goes on to the two commands; only a stream that does not
  decode stops it.
\<close>

lemma main_building:
  assumes "filter (unresolvable sh) dependencies = []"
    and "utf8_ok (surfaced (sh echo_command))"
    and "dist_ready w"
  shows "main (Some sh) w =
     ((if utf8_ok (surfaced (sh build_command)) then Returned () else Raised UnicodeDecodeError),
      w\<lparr>fs := (if fs w ''dist'' = None then (fs w)(''dist'' \<mapsto> Directory) else fs w),
        trace := trace w @ map (\<lambda>d. Spawn (which d)) dependencies @
          [Print ''All dependencies are satisfied.'', Print ''Building the project...''] @
          Spawn echo_command # printed_for echo_command (sh echo_command) @ made w @
          Spawn build_command #
          (if returncode (sh build_command) \<noteq> 0
           then [Print (''Error running command: '' @ build_command)] else []) @
          (if utf8_ok (surfaced (sh build_command))
           then [Print (surfaced (sh build_command)), Print ''Build completed successfully.'']
           else [])\<rparr>)"
  using assms(1,3)
  by (simp add: main_def checkDeps_def checkDeps_on_with_shell seq_def py_print_def log_def
      run_command_decoded [of sh echo_command, OF assms(2)] run_command_started [of sh build_command]
      ensure_dist_ready)

text \<open>When the directory step raises, the build command is never started.\<close>

lemma main_directory_step_raises:
  assumes "filter (unresolvable sh) dependencies = []"
    and "utf8_ok (surfaced (sh echo_command))"
    and "fs w ''dist'' = Some DanglingSymlink"
  shows "main (Some sh) w =
     (Raised FileExistsError,
      w\<lparr>trace := trace w @ map (\<lambda>d. Spawn (which d)) dependencies @
          [Print ''All dependencies are satisfied.'', Print ''Building the project...''] @
          Spawn echo_command # printed_for echo_command (sh echo_command) @
          [Makedirs ''dist'']\<rparr>)"
  using assms(1,3)
  by (simp add: main_def checkDeps_def checkDeps_on_with_shell seq_def py_print_def log_def
      run_command_decoded [of sh echo_command, OF assms(2)] ensure_dist_dangling)

lemma main_built:
  assumes "filter (unresolvable sh) dependencies = []"
    and "utf8_ok (surfaced (sh echo_command))"
    and "utf8_ok (surfaced (sh build_command))"
    and "dist_ready w"
  shows "main (Some sh) w =
     (Returned (),
      w\<lparr>fs := (if fs w ''dist'' = None then (fs w)(''dist'' \<mapsto> Directory) else fs w),
        trace := trace w @ map (\<lambda>d. Spawn (which d)) dependencies @
          [Print ''All dependencies are satisfied.'', Print ''Building the project...''] @
          Spawn echo_command # printed_for echo_command (sh echo_command) @ made w @
          Spawn build_command # printed_for build_command (sh build_command) @
          [Print ''Build completed successfully.'']\<rparr>)"
  using assms(3)
  by (cases "returncode (sh build_command) = 0")
    (simp_all add: main_building [OF assms(1,2,4)] printed_for_def surfaced_def)

lemma probes_are_not_builds:
  "Spawn echo_command \<notin> set (map (\<lambda>d. Spawn (which d)) dependencies)"
  "Spawn build_command \<notin> set (map (\<lambda>d. Spawn (which d)) dependencies)"
  by (simp_all add: dependencies_def which_def echo_command_def build_command_def)

subsection \<open>The sample shells\<close>

lemma shell_rebuilt_probe:
  "dep \<in> set dependencies \<Longrightarrow> shell_rebuilt sh p (which dep) = sh (which dep)"
  by (auto simp: shell_rebuilt_def dependencies_def which_def build_command_def)

lemma shell_rebuilt_missing:
  "filter (unresolvable (shell_rebuilt sh p)) dependencies = filter (unresolvable sh) dependencies"
  by (rule filter_cong) (simp_all add: unresolvable_def shell_rebuilt_probe)

lemma shell_rebuilt_echo: "shell_rebuilt sh p echo_command = sh echo_command"
  by (simp add: shell_rebuilt_def echo_command_def build_command_def)

lemma shell_rebuilt_build: "shell_rebuilt sh p build_command = p"
  by (simp add: shell_rebuilt_def)

lemma shell_complete_missing: "filter (unresolvable shell_complete) deps = []"
  by (simp add: unresolvable_def shell_complete_def quiet_def)

lemma shell_without_mosh_missing:
  "filter (unresolvable shell_without_mosh) dependencies = [''mosh'']"
  by (simp add: unresolvable_def shell_without_mosh_def dependencies_def which_def quiet_def)

lemma surfaced_samples:
  "utf8_ok (surfaced quiet)" "utf8_ok (surfaced failed)"
  "utf8_ok (surfaced (noisy 0))" "\<not> utf8_ok (surfaced (noisy 2))"
  "\<not> utf8_ok (surfaced binary)"
  by (simp_all add: surfaced_def utf8_ok_samples utf8_ok_rejects utf8_ok_noisy)


lemma shell_noisy_build_facts:
  "filter (unresolvable (shell_noisy_build status)) dependencies = []"
  "utf8_ok (surfaced (shell_noisy_build status echo_command))"
  "shell_noisy_build status build_command = noisy status"
  by (simp_all add: shell_noisy_build_def shell_rebuilt_missing shell_complete_missing
      shell_rebuilt_echo shell_rebuilt_build surfaced_samples shell_complete_def)

lemma shell_failing_build_facts:
  "filter (unresolvable shell_failing_build) dependencies = []"
  "utf8_ok (surfaced (shell_failing_build echo_command))"
  "shell_failing_build build_command = failed"
  by (simp_all add: shell_failing_build_def shell_rebuilt_missing shell_complete_missing
      shell_rebuilt_echo shell_rebuilt_build surfaced_samples shell_complete_def)

text \<open>The same build tool, with the same output: exit status 0, then exit status 2.\<close>

lemma empty_world_ready: "dist_ready empty_world"
  by (simp add: dist_ready_def empty_world_def)

lemma shell_noisy_build_echo: "shell_noisy_build status echo_command = quiet"
  by (simp add: shell_noisy_build_def shell_rebuilt_echo shell_complete_def)

lemma surfaced_noisy_succeeding: "surfaced (noisy 0) = ''done''"
  by (simp add: surfaced_def noisy_def)

lemma main_noisy_succeeding:
  "main (Some (shell_noisy_build 0)) empty_world =
     (Returned (),
      \<lparr>fs = [''dist'' \<mapsto> Directory], mkdir_refused = None,
        trace = map (\<lambda>d. Spawn (which d)) dependencies @
          [Print ''All dependencies are satisfied.'', Print ''Building the project...'',
           Spawn echo_command, Print [], Makedirs ''dist'', Spawn build_command,
           Print ''done'', Print ''Build completed successfully.'']\<rparr>)"
  unfolding main_building [OF shell_noisy_build_facts(1,2) empty_world_ready]
    shell_noisy_build_facts(3)
    shell_noisy_build_echo
  using surfaced_samples(3)
  by (simp add: surfaced_noisy_succeeding empty_world_def made_def printed_for_def quiet_def)

lemma main_noisy_failing:
  "main (Some (shell_noisy_build 2)) empty_world =
     (Raised UnicodeDecodeError,
      \<lparr>fs = [''dist'' \<mapsto> Directory], mkdir_refused = None,
        trace = map (\<lambda>d. Spawn (which d)) dependencies @
          [Print ''All dependencies are satisfied.'', Print ''Building the project...'',
           Spawn echo_command, Print [], Makedirs ''dist'', Spawn build_command,
           Print (''Error running command: '' @ build_command)]\<rparr>)"
  unfolding main_building [OF shell_noisy_build_facts(1,2) empty_world_ready]
    shell_noisy_build_facts(3)
    shell_noisy_build_echo
  by (simp add: surfaced_samples empty_world_def made_def printed_for_def quiet_def)

subsection \<open>The dependency checker\<close>

text \<open>
  C1. For every list of tool names, the checker returns true if and only if no name of
  the list is unresolvable, and the list of missing names it builds holds exactly the
  unresolvable names, in the order of the input; that list is what it prints. (On a host
  with a shell; without one the first probe raises \<open>OSError\<close>.)
\<close>

theorem checkDeps_missing_in_order:
  "fst (probe_all (Some sh) deps [] w) = Returned (filter (unresolvable sh) deps) \<and>
   fst (checkDeps_on (Some sh) deps w) = Returned (\<forall>dep \<in> set deps. \<not> unresolvable sh dep) \<and>
   (filter (unresolvable sh) deps \<noteq> [] \<longrightarrow>
      last (trace (snd (checkDeps_on (Some sh) deps w))) =
        Print (''Missing dependencies: '' @ join '', '' (filter (unresolvable sh) deps)))"
proof -
  have "(filter (unresolvable sh) deps = []) = (\<forall>dep \<in> set deps. \<not> unresolvable sh dep)"
    by (simp add: filter_empty_conv)
  then show ?thesis
    by (simp add: probe_all_with_shell checkDeps_on_with_shell)
qed

theorem checkDeps_missing_in_order_witness:
  "fst (probe_all (Some shell_without_mosh) dependencies [] empty_world) = Returned [''mosh''] \<and>
   fst (checkDeps (Some shell_without_mosh) empty_world) = Returned False \<and>
   last (trace (snd (checkDeps (Some shell_without_mosh) empty_world))) =
     Print ''Missing dependencies: mosh''"
proof -
  have "\<not> (\<forall>dep \<in> set dependencies. \<not> unresolvable shell_without_mosh dep)"
    using shell_without_mosh_missing by (simp add: filter_empty_conv [symmetric])
  with checkDeps_missing_in_order [of shell_without_mosh dependencies empty_world]
  show ?thesis
    by (simp add: shell_without_mosh_missing checkDeps_def)
qed

text \<open>
  C8, as the code has it. The checker leaves the file system alone, and beyond its probes
  it does nothing when no name is missing; when some are, it writes one line to the
  program's standard output, the missing names joined by commas.
\<close>

theorem checkDeps_output:
  "fs (snd (checkDeps_on (Some sh) deps w)) = fs w \<and>
   filter (\<lambda>e. \<not> is_spawn e) (new_events w (snd (checkDeps_on (Some sh) deps w))) =
     (if \<forall>dep \<in> set deps. \<not> unresolvable sh dep then []
      else [Print (''Missing dependencies: '' @ join '', '' (filter (unresolvable sh) deps))])"
proof -
  have "(filter (unresolvable sh) deps = []) = (\<forall>dep \<in> set deps. \<not> unresolvable sh dep)"
    by (simp add: filter_empty_conv)
  then show ?thesis
    by (simp add: checkDeps_on_with_shell)
qed

theorem checkDeps_output_witness:
  "filter (\<lambda>e. \<not> is_spawn e)
     (new_events empty_world (snd (checkDeps_on (Some shell_without_mosh) dependencies empty_world))) =
     [Print ''Missing dependencies: mosh''] \<and>
   filter (\<lambda>e. \<not> is_spawn e)
     (new_events empty_world (snd (checkDeps_on (Some shell_complete) dependencies empty_world))) = []"
proof -
  have e1: "\<not> (\<forall>dep \<in> set dependencies. \<not> unresolvable shell_without_mosh dep)"
    using shell_without_mosh_missing by (simp add: filter_empty_conv [symmetric])
  have a2: "\<forall>dep \<in> set dependencies. \<not> unresolvable shell_complete dep"
    using shell_complete_missing [of dependencies] by (simp add: filter_empty_conv)
  from checkDeps_output [of shell_without_mosh dependencies empty_world]
    checkDeps_output [of shell_complete dependencies empty_world] e1 a2
  show ?thesis
    by (simp add: shell_without_mosh_missing)
qed

text \<open>
  C8, as stated, fails: with \<open>mosh\<close> missing the checker prints to standard output.
\<close>

theorem checkDeps_output_counterexample:
  "Print ''Missing dependencies: mosh''
     \<in> set (new_events empty_world (snd (checkDeps (Some shell_without_mosh) empty_world)))"
  by (simp add: checkDeps_def checkDeps_on_with_shell shell_without_mosh_missing)

text \<open>
  C9. The list that is checked is the fixed sequence figlet, argc, wget, curl, telnet,
  ssh, mosh, bash, and the checker probes the names in that order (all eight on a host
  with a shell; without one the first probe is the last).
\<close>

theorem checkDeps_probe_order:
  "dependencies =
     [''figlet'', ''argc'', ''wget'', ''curl'', ''telnet'', ''ssh'', ''mosh'', ''bash''] \<and>
   filter is_spawn (new_events w (snd (checkDeps (Some sh) w))) =
     [Spawn ''which figlet'', Spawn ''which argc'', Spawn ''which wget'',
      Spawn ''which curl'', Spawn ''which telnet'', Spawn ''which ssh'',
      Spawn ''which mosh'', Spawn ''which bash''] \<and>
   filter is_spawn (new_events w (snd (checkDeps None w))) = [Spawn ''which figlet'']"
proof -
  have "filter is_spawn (new_events w (snd (checkDeps (Some sh) w))) =
      map (\<lambda>d. Spawn (which d)) dependencies"
    by (simp add: checkDeps_def checkDeps_on_with_shell)
  moreover have "checkDeps None w = (Raised OSError, w\<lparr>trace := trace w @ [Spawn ''which figlet'']\<rparr>)"
    by (simp add: checkDeps_def checkDeps_on_def dependencies_def seq_def subprocess_call_def
        log_def which_def)
  ultimately show ?thesis
    by (simp add: dependencies_def which_def)
qed

subsection \<open>The command runner, by exit status\<close>

text \<open>
  C4 has \<open>run_command\<close> surface the captured standard output of every command that
  exits with status 0, as its docstring has it print the output. The code does not
  for output that is not UTF-8: copying an executable to standard output exits with
  status 0, and \<open>run_command\<close> raises \<open>UnicodeDecodeError\<close> with nothing printed.
\<close>

theorem run_command_undecodable_output:
  "returncode (shell_with_cat ''cat /bin/sh'') = 0 \<and>
   run_command (Some shell_with_cat) ''cat /bin/sh'' empty_world =
     (Raised UnicodeDecodeError, empty_world\<lparr>trace := [Spawn ''cat /bin/sh'']\<rparr>)"
proof -
  have "shell_with_cat ''cat /bin/sh'' = binary"
    by (simp add: shell_with_cat_def)
  then show ?thesis
    by (simp add: run_command_started surfaced_samples empty_world_def)
qed









subsection \<open>The output directory\<close>

text \<open>
  C7, as the code has it. The directory-ensure step is idempotent wherever it goes
  through. When \<open>dist\<close> is a directory, or a regular file, it raises no error and changes
  nothing. When the name is free and the working directory takes the entry, it makes the
  directory, and run twice in succession it does what one run does and leaves the
  directory \<open>dist\<close> present. It raises \<open>FileExistsError\<close> when \<open>dist\<close> is a dangling
  symbolic link and the error of \<open>mkdir\<close> when the name is free and no entry can be made.
  No other name is touched.
\<close>

theorem ensure_dist_idempotent:
  "(fs w ''dist'' = Some Directory \<or> fs w ''dist'' = Some RegularFile \<longrightarrow>
      ensure_dist w = (Returned (), w)) \<and>
   (fs w ''dist'' = None \<and> mkdir_refused w = None \<longrightarrow>
      ensure_dist w =
        (Returned (),
         w\<lparr>fs := (fs w)(''dist'' \<mapsto> Directory), trace := trace w @ [Makedirs ''dist'']\<rparr>) \<and>
      fs (snd (ensure_twice w)) ''dist'' = Some Directory) \<and>
   (fst (ensure_dist w) = Returned () \<longrightarrow> ensure_twice w = ensure_dist w) \<and>
   (fs w ''dist'' = Some DanglingSymlink \<longrightarrow>
      ensure_dist w = (Raised FileExistsError, w\<lparr>trace := trace w @ [Makedirs ''dist'']\<rparr>)) \<and>
   (fs w ''dist'' = None \<and> mkdir_refused w = Some e \<longrightarrow>
      ensure_dist w = (Raised e, w\<lparr>trace := trace w @ [Makedirs ''dist'']\<rparr>)) \<and>
   (\<forall>name. name \<noteq> ''dist'' \<longrightarrow> fs (snd (ensure_dist w)) name = fs w name)"
proof -
  have twice: "ensure_twice w = ensure_dist w" if "fst (ensure_dist w) = Returned ()"
  proof -
    from that have r: "dist_ready w"
      by (simp add: ensure_dist_returns)
    let ?w' = "w\<lparr>fs := (if fs w ''dist'' = None then (fs w)(''dist'' \<mapsto> Directory) else fs w),
        trace := trace w @ made w\<rparr>"
    have first: "ensure_dist w = (Returned (), ?w')"
      by (rule ensure_dist_ready [OF r])
    from r have "fs ?w' ''dist'' = Some Directory \<or> fs ?w' ''dist'' = Some RegularFile"
      by (auto simp: dist_ready_cases)
    then have second: "ensure_dist ?w' = (Returned (), ?w')"
      by (rule ensure_dist_present)
    from first second show ?thesis
      by (simp add: ensure_twice_def seq_def)
  qed
  have created: "fs (snd (ensure_twice w)) ''dist'' = Some Directory"
    if "fs w ''dist'' = None" and "mkdir_refused w = None"
  proof -
    from that have e: "ensure_dist w =
        (Returned (),
         w\<lparr>fs := (fs w)(''dist'' \<mapsto> Directory), trace := trace w @ [Makedirs ''dist'']\<rparr>)"
      by (rule ensure_dist_absent)
    then have "ensure_twice w = ensure_dist w"
      by (simp add: twice)
    with e show ?thesis
      by simp
  qed
  have others: "fs (snd (ensure_dist w)) name = fs w name" if "name \<noteq> ''dist''" for name
    using that
    by (simp add: ensure_dist_def seq_def os_path_exists_def os_makedirs_def log_def return_def
        split: option.splits node.splits)
  from twice created others show ?thesis
    by (auto simp: ensure_dist_present ensure_dist_absent ensure_dist_dangling
        ensure_dist_refused)
qed

theorem ensure_dist_idempotent_witness:
  "fs empty_world ''dist'' = None \<and> mkdir_refused empty_world = None \<and>
   ensure_dist empty_world =
     (Returned (),
      \<lparr>fs = [''dist'' \<mapsto> Directory], mkdir_refused = None, trace = [Makedirs ''dist'']\<rparr>) \<and>
   ensure_twice empty_world = ensure_dist empty_world \<and>
   fs (snd (ensure_twice empty_world)) ''dist'' = Some Directory \<and>
   fs world_not_writable ''dist'' = None \<and>
   mkdir_refused world_not_writable = Some PermissionError \<and>
   fst (ensure_dist world_not_writable) = Raised PermissionError"
proof -
  have a: "fs empty_world ''dist'' = None" "mkdir_refused empty_world = None"
    by (simp_all add: empty_world_def)
  have b: "fs world_not_writable ''dist'' = None"
    "mkdir_refused world_not_writable = Some PermissionError"
    by (simp_all add: world_not_writable_def)
  from ensure_dist_idempotent [of empty_world]
    ensure_dist_idempotent [of world_not_writable PermissionError] a b
  show ?thesis
    by (simp add: empty_world_def)
qed

text \<open>
  C7, as stated, fails: with a regular file named \<open>dist\<close>, two runs raise no error and
  leave no directory; with a dangling symbolic link named \<open>dist\<close>, the step raises
  \<open>FileExistsError\<close> and the link stays.
\<close>

theorem ensure_dist_idempotent_counterexample:
  "ensure_twice world_with_file = (Returned (), world_with_file) \<and>
   fs (snd (ensure_twice world_with_file)) ''dist'' = Some RegularFile \<and>
   fst (ensure_twice world_with_dangling_link) = Raised FileExistsError \<and>
   fs (snd (ensure_twice world_with_dangling_link)) ''dist'' = Some DanglingSymlink"
proof -
  have f: "fs world_with_file ''dist'' = Some RegularFile"
    by (simp add: world_with_file_def)
  then have "ensure_dist world_with_file = (Returned (), world_with_file)"
    by (simp add: ensure_dist_present)
  then have "ensure_twice world_with_file = (Returned (), world_with_file)"
    by (simp add: ensure_twice_def seq_def)
  moreover have l: "fs world_with_dangling_link ''dist'' = Some DanglingSymlink"
    by (simp add: world_with_dangling_link_def)
  then have "ensure_twice world_with_dangling_link =
      (Raised FileExistsError,
       world_with_dangling_link\<lparr>trace := trace world_with_dangling_link @ [Makedirs ''dist'']\<rparr>)"
    by (simp add: ensure_twice_def seq_def ensure_dist_dangling)
  ultimately show ?thesis
    using f l by simp
qed

subsection \<open>The orchestration as a whole\<close>

text \<open>
  C2. In every run in which at least one dependency is unresolvable, \<open>main\<close> prints the
  missing names and the remediation message and returns: the file system is unchanged,
  no directory is made, and no command other than the probes is started.
\<close>

theorem main_aborts_on_missing_dependency:
  assumes "\<exists>dep \<in> set dependencies. unresolvable sh dep"
  shows "main (Some sh) w =
     (Returned (),
      w\<lparr>trace := trace w @ map (\<lambda>d. Spawn (which d)) dependencies @
         [Print (''Missing dependencies: '' @ join '', '' (filter (unresolvable sh) dependencies)),
          Print ''Please install the missing dependencies and try again.'']\<rparr>) \<and>
     fs (snd (main (Some sh) w)) = fs w \<and>
     (\<forall>name. Makedirs name \<notin> set (new_events w (snd (main (Some sh) w)))) \<and>
     Spawn echo_command \<notin> set (new_events w (snd (main (Some sh) w))) \<and>
     Spawn build_command \<notin> set (new_events w (snd (main (Some sh) w)))"
proof -
  from assms have "filter (unresolvable sh) dependencies \<noteq> []"
    by (simp add: filter_empty_conv)
  from main_missing [OF this, of w] probes_are_not_builds show ?thesis
    by auto
qed

theorem main_aborts_on_missing_dependency_witness:
  "list_ex (unresolvable shell_without_mosh) dependencies \<and>
   main (Some shell_without_mosh) empty_world =
     (Returned (),
      empty_world\<lparr>trace :=
        [Spawn ''which figlet'', Spawn ''which argc'', Spawn ''which wget'',
         Spawn ''which curl'', Spawn ''which telnet'', Spawn ''which ssh'',
         Spawn ''which mosh'', Spawn ''which bash'',
         Print ''Missing dependencies: mosh'',
         Print ''Please install the missing dependencies and try again.'']\<rparr>)"
proof -
  have "filter (unresolvable shell_without_mosh) dependencies \<noteq> []"
    by (simp add: shell_without_mosh_missing)
  then have some: "\<exists>dep \<in> set dependencies. unresolvable shell_without_mosh dep"
    by (simp add: filter_empty_conv)
  have ex: "list_ex (unresolvable shell_without_mosh) dependencies"
    using some by (simp add: list_ex_iff)
  have spawns: "map (\<lambda>d. Spawn (which d)) dependencies =
      [Spawn ''which figlet'', Spawn ''which argc'', Spawn ''which wget'',
       Spawn ''which curl'', Spawn ''which telnet'', Spawn ''which ssh'',
       Spawn ''which mosh'', Spawn ''which bash'']"
    by (simp add: dependencies_def which_def)
  from main_aborts_on_missing_dependency [OF some, of empty_world] ex
  show ?thesis
    by (simp add: shell_without_mosh_missing spawns empty_world_def)
qed

text \<open>
  C3 has \<open>main\<close> print the final success message after the build whatever the exit
  status of the build command. The code does not for a build tool that writes a Latin-1
  message to standard error: with exit status 0 the final message is printed, with exit
  status 2 \<open>run_command\<close> decodes the message, \<open>UnicodeDecodeError\<close> leaves \<open>main\<close>, and
  the final message is never printed.
\<close>

theorem main_undecodable_build_message:
  "filter (unresolvable (shell_noisy_build 2)) dependencies = [] \<and>
   returncode (shell_noisy_build 2 build_command) = 2 \<and>
   fst (main (Some (shell_noisy_build 2)) empty_world) = Raised UnicodeDecodeError \<and>
   Print ''Build completed successfully.''
     \<notin> set (trace (snd (main (Some (shell_noisy_build 2)) empty_world))) \<and>
   returncode (shell_noisy_build 0 build_command) = 0 \<and>
   last (trace (snd (main (Some (shell_noisy_build 0)) empty_world))) =
     Print ''Build completed successfully.''"
proof -
  have "Print ''Build completed successfully.''
      \<notin> set (trace (snd (main (Some (shell_noisy_build 2)) empty_world)))"
    by (simp add: main_noisy_failing dependencies_def which_def echo_command_def
        build_command_def)
  moreover have "returncode (shell_noisy_build s build_command) = s" for s
    by (simp add: shell_noisy_build_facts(3))
  moreover have "fst (main (Some (shell_noisy_build 2)) empty_world) = Raised UnicodeDecodeError"
    by (simp add: main_noisy_failing)
  moreover have "last (trace (snd (main (Some (shell_noisy_build 0)) empty_world))) =
      Print ''Build completed successfully.''"
    by (simp add: main_noisy_succeeding)
  ultimately show ?thesis
    using shell_noisy_build_facts(1) by blast
qed

text \<open>
  C5, as the code has it. The process exits with status 0 in every run in which one or
  more dependencies are missing: \<open>main\<close> returns after the remediation message and the
  script has no exit call. With nothing missing it exits with status 0 when the
  directory step goes through and the streams decoded for the two commands are
  well-formed UTF-8.
\<close>

theorem script_exit_status:
  "((\<exists>dep \<in> set dependencies. unresolvable sh dep) \<longrightarrow> fst (script (Some sh) w) = 0) \<and>
   ((\<forall>dep \<in> set dependencies. \<not> unresolvable sh dep) \<and> dist_ready w \<and>
    utf8_ok (surfaced (sh echo_command)) \<and> utf8_ok (surfaced (sh build_command))
      \<longrightarrow> fst (script (Some sh) w) = 0)"
proof (intro conjI impI)
  assume "\<exists>dep \<in> set dependencies. unresolvable sh dep"
  then have "filter (unresolvable sh) dependencies \<noteq> []"
    by (simp add: filter_empty_conv)
  then show "fst (script (Some sh) w) = 0"
    by (simp add: script_def main_missing)
next
  assume a: "(\<forall>dep \<in> set dependencies. \<not> unresolvable sh dep) \<and> dist_ready w \<and>
    utf8_ok (surfaced (sh echo_command)) \<and> utf8_ok (surfaced (sh build_command))"
  then have m: "filter (unresolvable sh) dependencies = []"
    by (simp add: filter_empty_conv)
  from a have e: "utf8_ok (surfaced (sh echo_command))"
    and b: "utf8_ok (surfaced (sh build_command))"
    and r: "dist_ready w"
    by simp_all
  show "fst (script (Some sh) w) = 0"
    by (simp add: script_def main_built [OF m e b r])
qed

theorem script_exit_status_witness:
  "list_ex (unresolvable shell_without_mosh) dependencies \<and>
   fst (script (Some shell_without_mosh) empty_world) = 0 \<and>
   list_all (\<lambda>dep. \<not> unresolvable shell_failing_build dep) dependencies \<and>
   dist_ready empty_world \<and>
   utf8_ok (surfaced (shell_failing_build echo_command)) \<and>
   utf8_ok (surfaced (shell_failing_build build_command)) \<and>
   fst (script (Some shell_failing_build) empty_world) = 0"
proof -
  have "filter (unresolvable shell_without_mosh) dependencies \<noteq> []"
    by (simp add: shell_without_mosh_missing)
  then have some: "\<exists>dep \<in> set dependencies. unresolvable shell_without_mosh dep"
    by (simp add: filter_empty_conv)
  have r: "\<forall>dep \<in> set dependencies. \<not> unresolvable shell_failing_build dep"
    using shell_failing_build_facts(1) by (simp add: filter_empty_conv)
  have u: "utf8_ok (surfaced (shell_failing_build build_command))"
    by (simp add: shell_failing_build_facts(3) surfaced_samples)
  from script_exit_status [of shell_without_mosh empty_world]
    script_exit_status [of shell_failing_build empty_world]
    some r shell_failing_build_facts(2) u empty_world_ready
  show ?thesis
    by (simp add: list_all_iff list_ex_iff)
qed

text \<open>
  C5, as stated, fails in both halves: with \<open>mosh\<close> missing the exit status is 0, and with
  nothing missing and no output at all it is 1 when \<open>dist\<close> is a dangling symbolic link.
\<close>

theorem script_exit_status_counterexample:
  "''mosh'' \<in> set dependencies \<and> unresolvable shell_without_mosh ''mosh'' \<and>
   fst (script (Some shell_without_mosh) empty_world) = 0 \<and>
   filter (unresolvable shell_complete) dependencies = [] \<and>
   fst (script (Some shell_complete) world_with_dangling_link) = 1"
proof -
  have "filter (unresolvable shell_without_mosh) dependencies \<noteq> []"
    by (simp add: shell_without_mosh_missing)
  then have "fst (script (Some shell_without_mosh) empty_world) = 0"
    by (simp add: script_def main_missing)
  moreover have "unresolvable shell_without_mosh ''mosh''"
    by (simp add: unresolvable_def shell_without_mosh_def which_def)
  moreover have e: "utf8_ok (surfaced (shell_complete echo_command))"
    by (simp add: shell_complete_def surfaced_samples)
  have l: "fs world_with_dangling_link ''dist'' = Some DanglingSymlink"
    by (simp add: world_with_dangling_link_def)
  have "fst (script (Some shell_complete) world_with_dangling_link) = 1"
    by (simp add: script_def main_directory_step_raises [OF shell_complete_missing e l])
  moreover have "''mosh'' \<in> set dependencies"
    by (simp add: dependencies_def)
  ultimately show ?thesis
    using shell_complete_missing [of dependencies] by blast
qed

text \<open>
  C10 has \<open>run_command\<close> return \<open>None\<close> for every command and exit status, and \<open>main\<close> go on
  in the same way after a build that succeeded and one that failed. The code does not
  for a build tool whose output is the same in both cases, with a Latin-1 message on
  standard error: \<open>run_command\<close> returns \<open>None\<close> on exit status 0 and raises on exit
  status 2, and \<open>main\<close> returns in the first run and ends in the exception in the second.
\<close>

theorem build_status_changes_control_flow:
  "stdout (noisy 0) = stdout (noisy 2) \<and> stderr (noisy 0) = stderr (noisy 2) \<and>
   fst (run_command (Some (shell_noisy_build 0)) build_command empty_world) = Returned () \<and>
   fst (run_command (Some (shell_noisy_build 2)) build_command empty_world) =
     Raised UnicodeDecodeError \<and>
   fst (main (Some (shell_noisy_build 0)) empty_world) = Returned () \<and>
   fst (main (Some (shell_noisy_build 2)) empty_world) = Raised UnicodeDecodeError"
proof -
  have "stdout (noisy 0) = stdout (noisy 2)" and "stderr (noisy 0) = stderr (noisy 2)"
    by (simp_all add: noisy_def)
  moreover have
    "fst (run_command (Some (shell_noisy_build 0)) build_command empty_world) = Returned ()"
    "fst (run_command (Some (shell_noisy_build 2)) build_command empty_world) =
       Raised UnicodeDecodeError"
    by (simp_all add: run_command_started shell_noisy_build_facts(3) surfaced_samples)
  moreover have
    "fst (main (Some (shell_noisy_build 0)) empty_world) = Returned ()"
    "fst (main (Some (shell_noisy_build 2)) empty_world) = Raised UnicodeDecodeError"
    by (simp_all add: main_noisy_succeeding main_noisy_failing)
  ultimately show ?thesis
    by blast
qed

end
